theory Spec2Isabelle
  imports Main
begin

section \<open>AL\_Excel.Coordinates: data model\<close>

text \<open>
  \<^verbatim>\<open>IndexType = typing.Literal["row","column"]\<close>. An \<open>Index\<close> whose type is Python's
  \<open>None\<close> (the specification's \<open>Unknown\<close> axis) carries \<open>None\<close> here.
\<close>

datatype IndexType = Row | Column

text \<open>
  \<^verbatim>\<open>class Index(typing.NamedTuple): type; value: int|None; absolute: bool\<close>.
  The fields are named \<open>itype\<close>, \<open>ivalue\<close> and \<open>absolute\<close>.
\<close>

datatype Index = Index (itype: "IndexType option") (ivalue: "int option") (absolute: bool)

text \<open>
  The Python values a descriptor can be. \<open>PSeq\<close> is a tuple or a list (the code treats
  both alike), \<open>PIndex\<close> an \<open>Index\<close> namedtuple as the caller built it, with
  unchecked fields, and \<open>POther\<close> a value of any other type that does not unpack into
  two and equals neither 0 nor 1 (an object, a function, the float 0.5).
  Strings are lists of 8-bit characters, read as the code points below 256; among these
  \<^verbatim>\<open>\d\<close> accepts the ten ASCII digits and \<^verbatim>\<open>[A-Z]\<close>, case ignored, the ASCII letters.
\<close>

datatype pyval =
    PNone
  | PInt int
  | PBool bool
  | PStr string
  | PIndex pyval pyval pyval
  | PSeq "pyval list"
  | POther

text \<open>
  One constructor for each \<^verbatim>\<open>raise\<close> of the module, named after the error kinds of the
  specification, and for each failure of an operation the module leaves unguarded.
\<close>

datatype error =
    PatternMismatch         \<comment> \<open>ValueError, parsecoordregex: no pattern matches\<close>
  | MalformedBracket char   \<comment> \<open>SyntaxError, parsecoordregex: the missing bracket\<close>
  | ValidationError         \<comment> \<open>ValueError, parseindex: Index fields, sequence length, absolute part\<close>
  | UnsupportedDescriptor   \<comment> \<open>ValueError, parseindex: not a recognized format\<close>
  | DuplicateAxis           \<comment> \<open>ValueError, converttotuple: duplicated arguments\<close>
  | AxisMismatch            \<comment> \<open>TypeError, addindices: type mismatch\<close>
  | DoubleAbsolute          \<comment> \<open>AttributeError, addindices and \_\_add\_\_: two absolute references\<close>
  | InvalidAbsoluteResult   \<comment> \<open>ValueError, addindices: absolute reference reduced below 0\<close>
  | InvalidCoordinates      \<comment> \<open>TypeError, converttotuple: the string is no coordinate\<close>
  | NotAPair                \<comment> \<open>TypeError, converttotuple: the value does not unpack into two\<close>
  | NoIndices               \<comment> \<open>ValueError, converttotuple: both indices are None\<close>
  | InvalidValues           \<comment> \<open>AttributeError, Coordinate.\_\_init\_\_: invalid values\<close>
  | InvalidColumn           \<comment> \<open>ValueError of the column-letter conversion\<close>
  | PyIndexError            \<comment> \<open>IndexError: element 0 of an empty sequence\<close>
  | PyTypeError             \<comment> \<open>TypeError: arithmetic or comparison on None\<close>

section \<open>Characters, integers and column letters\<close>

definition isdigit :: "char \<Rightarrow> bool" where
  "isdigit c = (48 \<le> (of_char c :: nat) \<and> (of_char c :: nat) \<le> 57)"

definition isupper :: "char \<Rightarrow> bool" where
  "isupper c = (65 \<le> (of_char c :: nat) \<and> (of_char c :: nat) \<le> 90)"

definition islower :: "char \<Rightarrow> bool" where
  "islower c = (97 \<le> (of_char c :: nat) \<and> (of_char c :: nat) \<le> 122)"

text \<open>The class \<^verbatim>\<open>[A-Z]\<close> under \<^verbatim>\<open>re.IGNORECASE\<close>.\<close>

definition isletter :: "char \<Rightarrow> bool" where
  "isletter c = (isupper c \<or> islower c)"

definition upper_char :: "char \<Rightarrow> char" where
  "upper_char c = (if islower c then char_of ((of_char c :: nat) - 32) else c)"

definition lower_char :: "char \<Rightarrow> char" where
  "lower_char c = (if isupper c then char_of ((of_char c :: nat) + 32) else c)"

text \<open>\<^verbatim>\<open>str.lower()\<close>, as far as a comparison with an ASCII literal can see it.\<close>

definition lower :: "string \<Rightarrow> string" where
  "lower s = map lower_char s"

text \<open>\<^verbatim>\<open>"c" if b else ""\<close>: a character that is there or not.\<close>

definition char_if :: "char \<Rightarrow> bool \<Rightarrow> string" where
  "char_if c b = (if b then [c] else [])"

text \<open>Python's \<^verbatim>\<open>int(s)\<close> on the text of a group \<^verbatim>\<open>-?\d+\<close>.\<close>

definition digits_value :: "string \<Rightarrow> nat" where
  "digits_value ds = foldl (\<lambda>a c. 10 * a + ((of_char c :: nat) - 48)) 0 ds"

definition py_int :: "string \<Rightarrow> int" where
  "py_int s = (case s of
       [] \<Rightarrow> 0
     | c # ds \<Rightarrow> if c = CHR ''-'' then - int (digits_value ds) else int (digits_value s))"

text \<open>Python's rendering of an integer in an f-string: decimal, \<^verbatim>\<open>-\<close> before a negative.\<close>

function nat_digits :: "nat \<Rightarrow> string" where
  "nat_digits n = (if n < 10 then [char_of (48 + n)]
                   else nat_digits (n div 10) @ [char_of (48 + n mod 10)])"
  by pat_completeness auto
termination
  by (relation "measure (\<lambda>n. n)") auto

definition py_str_int :: "int \<Rightarrow> string" where
  "py_str_int n = (if n < 0 then CHR ''-'' # nat_digits (nat (- n)) else nat_digits (nat n))"

text \<open>The rendering of \<^verbatim>\<open>Index.value\<close> in an f-string; \<^verbatim>\<open>None\<close> prints as its name.\<close>

definition format_value :: "int option \<Rightarrow> string" where
  "format_value v = (case v of None \<Rightarrow> ''None'' | Some n \<Rightarrow> py_str_int n)"

text \<open>
  Modelled from the spec: \<^verbatim>\<open>openpyxl.utils.cell.get_column_letter\<close> and
  \<^verbatim>\<open>column_index_from_string\<close> are functions of the spreadsheet library, which is not
  part of the sources. The specification gives the mapping: 1-based, base 26 on the
  letters, A=1 ... Z=26, AA=27 ..., and the range [1, 16384] for its round trip.
  The model is that mapping with no upper bound; a position below 1 has no letters, and
  a text that is empty or holds a character that is no letter has no position.
  The number is \<^verbatim>\<open>Index.value\<close>, so it may be \<^verbatim>\<open>None\<close>, which the library's range
  comparison rejects with a TypeError.
\<close>

function column_letters :: "nat \<Rightarrow> string" where
  "column_letters n = (if n = 0 then []
                       else column_letters ((n - 1) div 26) @ [char_of (65 + (n - 1) mod 26)])"
  by pat_completeness auto
termination
  by (relation "measure (\<lambda>n. n)") (auto simp: div_le_dividend less_Suc_eq_le)

definition get_column_letter :: "int option \<Rightarrow> error + string" where
  "get_column_letter idx = (case idx of
       None \<Rightarrow> Inl PyTypeError
     | Some n \<Rightarrow> if n < 1 then Inl InvalidColumn else Inr (column_letters (nat n)))"

definition letters_value :: "string \<Rightarrow> nat" where
  "letters_value s = foldl (\<lambda>a c. 26 * a + ((of_char (upper_char c) :: nat) - 64)) 0 s"

definition column_index_from_string :: "string \<Rightarrow> error + int" where
  "column_index_from_string s =
     (if s \<noteq> [] \<and> list_all isletter s then Inr (int (letters_value s))
      else Inl InvalidColumn)"

section \<open>The regular expressions\<close>

text \<open>
  Each pattern is a sequence of optional characters and of runs of one character class,
  and what follows an optional character or a run never begins with a character that the
  optional part or the run accepts. A backtracking matcher therefore finds a match
  exactly when the greedy choice does, and the functions below take the greedy choice.
\<close>

text \<open>An optional character, \<^verbatim>\<open>\[?\<close>, \<^verbatim>\<open>\]?\<close>, \<^verbatim>\<open>-?\<close> or \<^verbatim>\<open>\$?\<close>: the group's text and the rest.\<close>

fun opt :: "char \<Rightarrow> string \<Rightarrow> string \<times> string" where
  "opt c [] = ([], [])"
| "opt c (x # xs) = (if x = c then ([c], xs) else ([], x # xs))"

text \<open>
  \<^verbatim>\<open>L(?P<absolute1>\[?)(?P<id>-?\d+)(?P<absolute2>\]?)\<close> for the letter \<open>L\<close>, R or C, in
  either case: the groups absolute1, id, absolute2 and the rest of the text.
\<close>

definition rc_token :: "char \<Rightarrow> string \<Rightarrow> (string \<times> string \<times> string \<times> string) option" where
  "rc_token L s = (case s of
       [] \<Rightarrow> None
     | x # s1 \<Rightarrow>
         if upper_char x \<noteq> L then None
         else (let (a1, s2) = opt CHR ''['' s1;
                   (sg, s3) = opt CHR ''-'' s2;
                   ds = takeWhile isdigit s3
               in if ds = [] then None
                  else (let (a2, s4) = opt CHR '']'' (dropWhile isdigit s3)
                        in Some (a1, sg @ ds, a2, s4))))"

text \<open>
  \<^verbatim>\<open>(?P<absolute>\$?)(?P<id>cls+)\<close> for the class \<open>cls\<close>, letters or digits: the groups
  absolute and id and the rest of the text.
\<close>

definition a1_token :: "(char \<Rightarrow> bool) \<Rightarrow> string \<Rightarrow> (string \<times> string \<times> string) option" where
  "a1_token cls s =
     (let (a, s1) = opt CHR ''$'' s; ids = takeWhile cls s1
      in if ids = [] then None else Some (a, ids, dropWhile cls s1))"

text \<open>
  What a match of COLUMNRE or ROWRE holds: the groups of the alternative that matched
  (those of the other alternative are \<^verbatim>\<open>None\<close>).
\<close>

datatype axis_match =
    RCMatch string string string   \<comment> \<open>absolute1, RCrow or RCcolumn, absolute2\<close>
  | A1Match string string          \<comment> \<open>absolute, A1row or A1column\<close>

text \<open>COLUMNRE and ROWRE at one position: the R1C1 alternative first, then the A1 one.\<close>

definition COLUMNRE_match :: "string \<Rightarrow> axis_match option" where
  "COLUMNRE_match s = (case rc_token CHR ''C'' s of
       Some (a1, i, a2, _) \<Rightarrow> Some (RCMatch a1 i a2)
     | None \<Rightarrow> (case a1_token isletter s of
           Some (a, i, _) \<Rightarrow> Some (A1Match a i)
         | None \<Rightarrow> None))"

definition ROWRE_match :: "string \<Rightarrow> axis_match option" where
  "ROWRE_match s = (case rc_token CHR ''R'' s of
       Some (a1, i, a2, _) \<Rightarrow> Some (RCMatch a1 i a2)
     | None \<Rightarrow> (case a1_token isdigit s of
           Some (a, i, _) \<Rightarrow> Some (A1Match a i)
         | None \<Rightarrow> None))"

text \<open>\<^verbatim>\<open>pattern.search\<close>: the match at the leftmost position that has one.\<close>

fun search :: "(string \<Rightarrow> 'a option) \<Rightarrow> string \<Rightarrow> 'a option" where
  "search m [] = m []"
| "search m (x # xs) = (case m (x # xs) of Some r \<Rightarrow> Some r | None \<Rightarrow> search m xs)"

text \<open>
  \<^verbatim>\<open>$\<close> without \<^verbatim>\<open>re.MULTILINE\<close>: the end of the string, or just before a newline that
  ends it.
\<close>

definition at_end :: "string \<Rightarrow> bool" where
  "at_end s = (s = [] \<or> s = [CHR 0x0A])"

text \<open>
  Whether a text begins outside a character class, as the text after a run of the class
  does (used to state where a run ends).
\<close>

definition starts_outside :: "(char \<Rightarrow> bool) \<Rightarrow> string \<Rightarrow> bool" where
  "starts_outside cls s = (case s of [] \<Rightarrow> True | c # _ \<Rightarrow> \<not> cls c)"

text \<open>What a match of FULLRE holds: the texts of the two axis groups.\<close>

datatype full_match =
    FullRC string string   \<comment> \<open>RCrow, RCcolumn\<close>
  | FullA1 string string   \<comment> \<open>A1column, A1row\<close>

text \<open>
  FULLRE is anchored at both ends, so \<^verbatim>\<open>search\<close> tries position 0 only. The text of an
  axis group is the part of the string its token consumed.
\<close>

definition FULLRE_RC :: "string \<Rightarrow> full_match option" where
  "FULLRE_RC s = (case rc_token CHR ''R'' s of
       None \<Rightarrow> None
     | Some (_, _, _, s1) \<Rightarrow> (case rc_token CHR ''C'' s1 of
           None \<Rightarrow> None
         | Some (_, _, _, s2) \<Rightarrow>
             if at_end s2
             then Some (FullRC (take (length s - length s1) s) (take (length s1 - length s2) s1))
             else None))"

definition FULLRE_A1 :: "string \<Rightarrow> full_match option" where
  "FULLRE_A1 s = (case a1_token isletter s of
       None \<Rightarrow> None
     | Some (_, _, s1) \<Rightarrow> (case a1_token isdigit s1 of
           None \<Rightarrow> None
         | Some (_, _, s2) \<Rightarrow>
             if at_end s2
             then Some (FullA1 (take (length s - length s1) s) (take (length s1 - length s2) s1))
             else None))"

definition FULLRE_search :: "string \<Rightarrow> full_match option" where
  "FULLRE_search s = (case FULLRE_RC s of Some m \<Rightarrow> Some m | None \<Rightarrow> FULLRE_A1 s)"

section \<open>parsecoordregex and parseindex\<close>

text \<open>
  \<open>colrow\<close> is an \<open>IndexType\<close>, so the code's first check (that it is "column" or
  "row") cannot fail. A match of the A1 alternative gives the number of the letters or
  of the digits and the flag of the dollar sign; a match of the R1C1 alternative
  compares the two brackets.
\<close>

definition parsecoordregex :: "string \<Rightarrow> IndexType \<Rightarrow> error + Index" where
  "parsecoordregex value' colrow =
     (case (if colrow = Column then search COLUMNRE_match value' else search ROWRE_match value') of
        None \<Rightarrow> Inl PatternMismatch
      | Some (A1Match a i) \<Rightarrow>
          if colrow = Column
          then (case column_index_from_string i of
                  Inl e \<Rightarrow> Inl e
                | Inr n \<Rightarrow> Inr (Index (Some colrow) (Some n) (a \<noteq> [])))
          else Inr (Index (Some colrow) (Some (py_int i)) (a \<noteq> []))
      | Some (RCMatch a1 i a2) \<Rightarrow>
          (let abs1 = (a1 \<noteq> []); abs2 = (a2 \<noteq> [])
           in if abs1 \<noteq> abs2
              then Inl (MalformedBracket (if abs1 then CHR '']'' else CHR ''[''))
              else Inr (Index (Some colrow) (Some (py_int i)) (abs1 \<and> abs2))))"

text \<open>The checks of parseindex on the fields of an \<open>Index\<close> that the caller supplies.\<close>

definition index_type_of :: "pyval \<Rightarrow> error + IndexType option" where
  "index_type_of t = (case t of
       PNone \<Rightarrow> Inr None
     | PStr s \<Rightarrow> if s = ''row'' then Inr (Some Row)
                 else if s = ''column'' then Inr (Some Column)
                 else Inl ValidationError
     | _ \<Rightarrow> Inl ValidationError)"

text \<open>\<^verbatim>\<open>bool\<close> is a subclass of \<^verbatim>\<open>int\<close>: a Boolean value passes as the integer it equals.\<close>

definition index_value_of :: "pyval \<Rightarrow> error + int option" where
  "index_value_of v = (case v of
       PNone \<Rightarrow> Inr None
     | PInt n \<Rightarrow> Inr (Some n)
     | PBool b \<Rightarrow> Inr (Some (if b then 1 else 0))
     | _ \<Rightarrow> Inl ValidationError)"

text \<open>
  \<^verbatim>\<open>absolute in [0,1,True,False]\<close> (and \<^verbatim>\<open>in [True,False]\<close>) compares with \<^verbatim>\<open>==\<close>, so the
  integers 0 and 1 pass as the Booleans they equal.
\<close>

definition truth_value_of :: "pyval \<Rightarrow> error + bool" where
  "truth_value_of a = (case a of
       PBool b \<Rightarrow> Inr b
     | PInt n \<Rightarrow> if n = 1 then Inr True else if n = 0 then Inr False else Inl ValidationError
     | _ \<Rightarrow> Inl ValidationError)"

text \<open>The second element of a sequence descriptor: a string alias, or a truth value.\<close>

definition absolute_part :: "pyval \<Rightarrow> error + bool" where
  "absolute_part a = (case a of
       PStr s \<Rightarrow> if lower s = ''$'' \<or> lower s = ''absolute'' then Inr True
                 else if lower s = [] then Inr False
                 else Inl ValidationError
     | _ \<Rightarrow> truth_value_of a)"

fun parseindex :: "pyval \<Rightarrow> error + Index" where
  "parseindex PNone = Inr (Index None None False)"
| "parseindex (PInt n) = Inr (Index None (Some n) True)"
| "parseindex (PStr s) = (case parsecoordregex s Column of
       Inr i \<Rightarrow> Inr i
     | Inl _ \<Rightarrow> parsecoordregex s Row)"
| "parseindex (PIndex t v a) = (case index_type_of t of
       Inl e \<Rightarrow> Inl e
     | Inr t' \<Rightarrow> (case index_value_of v of
           Inl e \<Rightarrow> Inl e
         | Inr v' \<Rightarrow> (case truth_value_of a of
               Inl e \<Rightarrow> Inl e
             | Inr a' \<Rightarrow> Inr (Index t' v' a'))))"
| "parseindex (PSeq []) = Inl PyIndexError"
| "parseindex (PSeq [x]) = parseindex x"
| "parseindex (PSeq [x, a]) = (case parseindex x of
       Inl e \<Rightarrow> Inl e
     | Inr index \<Rightarrow> (case absolute_part a of
           Inl e \<Rightarrow> Inl e
         | Inr absolute' \<Rightarrow>
             if absolute index \<and> \<not> absolute' then Inl ValidationError
             else Inr (Index (itype index) (ivalue index) absolute')))"
| "parseindex (PSeq (x # a # b # bs)) = Inl ValidationError"
| "parseindex (PBool b) = Inl UnsupportedDescriptor"
| "parseindex POther = Inl UnsupportedDescriptor"

section \<open>converttotuple\<close>

definition COORDINATEORDER :: "IndexType list" where
  "COORDINATEORDER = [Row, Column]"

text \<open>\<^verbatim>\<open>index._replace(type = t)\<close>.\<close>

definition replace_type :: "Index \<Rightarrow> IndexType \<Rightarrow> Index" where
  "replace_type index t = Index (Some t) (ivalue index) (absolute index)"

text \<open>
  The branch for exactly one index without a value. The code retypes a local copy,
  \<^verbatim>\<open>goodindex = goodindex._replace(...)\<close>, when the good index has no type, and stores it
  nowhere: \<^verbatim>\<open>indices\<close> is returned as it was. When the good index has a type that is
  not the one of its position, the two entries are exchanged.
\<close>

definition one_value_indices :: "Index \<Rightarrow> Index \<Rightarrow> Index \<times> Index" where
  "one_value_indices i0 i1 =
     (let goodind = (if ivalue i0 \<noteq> None then 0 else 1 :: nat);
          goodindex = [i0, i1] ! goodind
      in if itype goodindex = None then (i0, i1)
         else if itype goodindex \<noteq> Some (COORDINATEORDER ! goodind) then (i1, i0)
         else (i0, i1))"

text \<open>
  The branch for two indices of the same type. Where only the second is absolute the
  code assigns \<^verbatim>\<open>indices[1] = indices[0]._replace(type='column')\<close>.
\<close>

definition same_type_indices :: "Index \<Rightarrow> Index \<Rightarrow> error + Index \<times> Index" where
  "same_type_indices i0 i1 =
     (if itype i0 = Some Row \<and> itype i1 = Some Row
      then (if absolute i0 \<and> \<not> absolute i1 then Inr (i0, replace_type i1 Column)
            else if absolute i1 \<and> \<not> absolute i0 then Inr (i0, replace_type i0 Column)
            else if \<not> absolute i0 \<and> \<not> absolute i1 then Inr (i0, replace_type i1 Column)
            else Inl DuplicateAxis)
      else Inl DuplicateAxis)"

text \<open>The last part: the lists of the row, column and untyped indices, and their heads.\<close>

definition first_of :: "Index list \<Rightarrow> error + Index" where
  "first_of xs = (case xs of [] \<Rightarrow> Inl PyIndexError | x # _ \<Rightarrow> Inr x)"

definition sort_indices :: "Index \<Rightarrow> Index \<Rightarrow> error + Index \<times> Index" where
  "sort_indices i0 i1 =
     (let indices = [i0, i1];
          row = filter (\<lambda>index. itype index = Some Row) indices;
          column = filter (\<lambda>index. itype index = Some Column) indices;
          ambiguous = filter (\<lambda>index. itype index = None) indices
      in if row \<noteq> [] \<and> column = []
         then (case first_of row of
                 Inl e \<Rightarrow> Inl e
               | Inr r \<Rightarrow> (case first_of ambiguous of
                     Inl e \<Rightarrow> Inl e
                   | Inr c \<Rightarrow> Inr (r, replace_type c Column)))
         else if column \<noteq> [] \<and> row = []
         then (case first_of column of
                 Inl e \<Rightarrow> Inl e
               | Inr c \<Rightarrow> (case first_of ambiguous of
                     Inl e \<Rightarrow> Inl e
                   | Inr r \<Rightarrow> Inr (replace_type r Row, c)))
         else (case first_of row of
                 Inl e \<Rightarrow> Inl e
               | Inr r \<Rightarrow> (case first_of column of
                     Inl e \<Rightarrow> Inl e
                   | Inr c \<Rightarrow> Inr (r, c))))"

text \<open>converttotuple from the two parsed indices on (the code's line 171 to its end).\<close>

definition converttotuple_indices :: "Index \<Rightarrow> Index \<Rightarrow> error + Index \<times> Index" where
  "converttotuple_indices i0 i1 =
     (let nonindices = filter (\<lambda>index. ivalue index = None) [i0, i1]
      in if length nonindices \<ge> 2 then Inl NoIndices
         else if nonindices \<noteq> [] then Inr (one_value_indices i0 i1)
         else if itype i0 = None \<and> itype i1 = None
         then Inr (replace_type i0 Row, replace_type i1 Column)
         else if itype i0 = itype i1
         then (case same_type_indices i0 i1 of
                 Inl e \<Rightarrow> Inl e
               | Inr (j0, j1) \<Rightarrow> sort_indices j0 j1)
         else sort_indices i0 i1)"

text \<open>
  A string goes through FULLRE; any other value must unpack into two descriptors, which
  a sequence of two elements does. The first failing parseindex raises.
\<close>

definition converttotuple :: "pyval \<Rightarrow> error + Index \<times> Index" where
  "converttotuple value' = (case value' of
       PStr s \<Rightarrow> (case FULLRE_search s of
           None \<Rightarrow> Inl InvalidCoordinates
         | Some (FullRC rowtext columntext) \<Rightarrow> (case parsecoordregex rowtext Row of
               Inl e \<Rightarrow> Inl e
             | Inr r \<Rightarrow> (case parsecoordregex columntext Column of
                   Inl e \<Rightarrow> Inl e
                 | Inr c \<Rightarrow> Inr (r, c)))
         | Some (FullA1 columntext rowtext) \<Rightarrow> (case parsecoordregex rowtext Row of
               Inl e \<Rightarrow> Inl e
             | Inr r \<Rightarrow> (case parsecoordregex columntext Column of
                   Inl e \<Rightarrow> Inl e
                 | Inr c \<Rightarrow> Inr (r, c))))
     | PSeq [index1, index2] \<Rightarrow> (case parseindex index1 of
           Inl e \<Rightarrow> Inl e
         | Inr i0 \<Rightarrow> (case parseindex index2 of
               Inl e \<Rightarrow> Inl e
             | Inr i1 \<Rightarrow> converttotuple_indices i0 i1))
     | _ \<Rightarrow> Inl NotAPair)"

section \<open>Coordinate\<close>

text \<open>The class holds \<^verbatim>\<open>_row\<close> and \<^verbatim>\<open>_column\<close>, each an \<open>Index\<close>.\<close>

datatype Coordinate = Coordinate (row_index: Index) (column_index: Index)

text \<open>The \<open>Index\<close> as the Python value it is, for the constructor's arguments.\<close>

definition pyval_of_Index :: "Index \<Rightarrow> pyval" where
  "pyval_of_Index index =
     PIndex (case itype index of
               None \<Rightarrow> PNone
             | Some Row \<Rightarrow> PStr ''row''
             | Some Column \<Rightarrow> PStr ''column'')
            (case ivalue index of None \<Rightarrow> PNone | Some n \<Rightarrow> PInt n)
            (PBool (absolute index))"

text \<open>
  \<^verbatim>\<open>Coordinate(row, column = False)\<close>. A string with no second argument is a whole
  coordinate and its errors pass through; otherwise the pair is converted and every
  exception becomes the AttributeError of invalid values.
\<close>

definition Coordinate_init :: "pyval \<Rightarrow> pyval \<Rightarrow> error + Coordinate" where
  "Coordinate_init row' column' =
     (if (case row' of PStr _ \<Rightarrow> True | _ \<Rightarrow> False) \<and> column' = PBool False
      then (case converttotuple row' of
              Inl e \<Rightarrow> Inl e
            | Inr (r, c) \<Rightarrow> Inr (Coordinate r c))
      else (case converttotuple (PSeq [row', if column' = PBool False then PNone else column']) of
              Inl e \<Rightarrow> Inl InvalidValues
            | Inr (r, c) \<Rightarrow> Inr (Coordinate r c)))"

text \<open>The properties \<^verbatim>\<open>row\<close> and \<^verbatim>\<open>column\<close> (a namedtuple of three fields is never false).\<close>

definition row :: "Coordinate \<Rightarrow> int option" where
  "row self = ivalue (row_index self)"

definition column :: "Coordinate \<Rightarrow> int option" where
  "column self = ivalue (column_index self)"

definition isabsolute :: "Coordinate \<Rightarrow> bool" where
  "isabsolute self = (absolute (column_index self) \<or> absolute (row_index self))"

text \<open>
  toA1string. The column letters are computed in both branches, and their failure is the
  only one. With \<^verbatim>\<open>absolute\<close> set, the dollar sign before the letters is the one of
  \<^verbatim>\<open>self._row.absolute\<close> and the dollar sign before the number the one of
  \<^verbatim>\<open>self._column.absolute\<close>.
\<close>

definition toA1string :: "Coordinate \<Rightarrow> bool \<Rightarrow> error + string" where
  "toA1string self absolute' =
     (case get_column_letter (ivalue (column_index self)) of
        Inl e \<Rightarrow> Inl e
      | Inr letters \<Rightarrow>
          if \<not> absolute' then Inr (letters @ format_value (ivalue (row_index self)))
          else Inr (char_if CHR ''$'' (absolute (row_index self)) @ letters
                    @ char_if CHR ''$'' (absolute (column_index self))
                    @ format_value (ivalue (row_index self))))"

text \<open>
  A Coordinate rendered by toA1string and parsed again by the constructor.
\<close>

definition parse_rendered :: "Coordinate \<Rightarrow> bool \<Rightarrow> error + Coordinate" where
  "parse_rendered self absolute' = (case toA1string self absolute' of
       Inl e \<Rightarrow> Inl e
     | Inr s \<Rightarrow> Coordinate_init (PStr s) (PBool False))"

section \<open>Addition\<close>

definition addindices :: "Index \<Rightarrow> Index \<Rightarrow> error + Index" where
  "addindices index1 index2 =
     (if absolute index1 \<and> absolute index2 then Inl DoubleAbsolute
      else if itype index1 \<noteq> itype index2 then Inl AxisMismatch
      else (let (index1', index2') = (if absolute index2 then (index2, index1) else (index1, index2))
            in case (ivalue index1', ivalue index2') of
                 (Some v1, Some v2) \<Rightarrow>
                   (let result = Index (itype index1') (Some (v1 + v2)) (absolute index1')
                    in if absolute result \<and> v1 + v2 \<le> 0 then Inl InvalidAbsoluteResult
                       else Inr result)
               | _ \<Rightarrow> Inl PyTypeError))"

text \<open>The branch of \<^verbatim>\<open>__add__\<close> for a right-hand side that is a Coordinate.\<close>

definition add_Coordinate :: "Coordinate \<Rightarrow> Coordinate \<Rightarrow> error + Coordinate" where
  "add_Coordinate self other =
     (if (absolute (row_index self) \<and> absolute (row_index other))
         \<or> (absolute (column_index self) \<and> absolute (column_index other))
      then Inl DoubleAbsolute
      else (case addindices (row_index self) (row_index other) of
              Inl e \<Rightarrow> Inl e
            | Inr r \<Rightarrow> (case addindices (column_index self) (column_index other) of
                  Inl e \<Rightarrow> Inl e
                | Inr c \<Rightarrow> Coordinate_init (pyval_of_Index r) (pyval_of_Index c))))"

text \<open>
  The right-hand side of \<^verbatim>\<open>+\<close>: a Coordinate, or any other value. The result of
  \<^verbatim>\<open>__add__\<close> is an exception (\<open>Inl\<close>), a Coordinate, or Python's \<^verbatim>\<open>None\<close>, which a
  method returns when its body ends without \<^verbatim>\<open>return\<close>: the second branch is
  \<^verbatim>\<open>try: return self + Coordinate(other)\<close> followed by \<^verbatim>\<open>except: pass\<close>.
\<close>

datatype addend = ACoordinate Coordinate | AValue pyval

definition Coordinate_add :: "Coordinate \<Rightarrow> addend \<Rightarrow> error + Coordinate option" where
  "Coordinate_add self other = (case other of
       ACoordinate c \<Rightarrow> (case add_Coordinate self c of
           Inl e \<Rightarrow> Inl e
         | Inr r \<Rightarrow> Inr (Some r))
     | AValue v \<Rightarrow> (case Coordinate_init v (PBool False) of
           Inl _ \<Rightarrow> Inr None
         | Inr c \<Rightarrow> (case add_Coordinate self c of
               Inl _ \<Rightarrow> Inr None
             | Inr r \<Rightarrow> Inr (Some r))))"

section \<open>Column letters and decimal digits\<close>

text \<open>
  The recursive equations of the two renderings are used at chosen arguments only.
\<close>

declare column_letters.simps [simp del] nat_digits.simps [simp del]

lemma of_char_upper_letter: "m < 26 \<Longrightarrow> (of_char (char_of (65 + m :: nat)) :: nat) = 65 + m"
  by simp

lemma upper_letter: "m < 26 \<Longrightarrow> isupper (char_of (65 + m :: nat))"
  by (simp add: isupper_def)

lemma upper_char_upper: "isupper c \<Longrightarrow> upper_char c = c"
  by (simp add: upper_char_def isupper_def islower_def)

lemma upper_letter_value:
  "m < 26 \<Longrightarrow> (of_char (upper_char (char_of (65 + m :: nat))) :: nat) - 64 = m + 1"
  using upper_char_upper [OF upper_letter, of m] by simp

lemma letters_value_snoc:
  "letters_value (xs @ [c]) = 26 * letters_value xs + ((of_char (upper_char c) :: nat) - 64)"
  by (simp add: letters_value_def)

lemma column_letters_0: "column_letters 0 = []"
  by (simp add: column_letters.simps [of 0])

lemma column_letters_upper: "list_all isupper (column_letters n)"
proof (induction n rule: column_letters.induct)
  case (1 n)
  show ?case
  proof (cases "n = 0")
    case True
    then show ?thesis by (simp add: column_letters_0)
  next
    case False
    with 1 show ?thesis
      by (simp add: column_letters.simps [of n] upper_letter)
  qed
qed

lemma column_letters_nonempty: "0 < n \<Longrightarrow> column_letters n \<noteq> []"
  by (simp add: column_letters.simps [of n])

lemma column_letters_value: "letters_value (column_letters n) = n"
proof (induction n rule: column_letters.induct)
  case (1 n)
  show ?case
  proof (cases "n = 0")
    case True
    then show ?thesis by (simp add: column_letters_0 letters_value_def)
  next
    case False
    with 1 have "letters_value (column_letters n) = 26 * ((n - 1) div 26) + ((n - 1) mod 26 + 1)"
      by (simp add: column_letters.simps [of n] letters_value_snoc upper_letter_value)
    also have "\<dots> = n" using False by simp
    finally show ?thesis .
  qed
qed

lemma digits_value_snoc:
  "digits_value (xs @ [c]) = 10 * digits_value xs + ((of_char c :: nat) - 48)"
  by (simp add: digits_value_def)

lemma digit_char: "m < 10 \<Longrightarrow> isdigit (char_of (48 + m :: nat)) \<and> (of_char (char_of (48 + m :: nat)) :: nat) - 48 = m"
  by (simp add: isdigit_def)

lemma nat_digits_digits: "list_all isdigit (nat_digits n)"
proof (induction n rule: nat_digits.induct)
  case (1 n)
  show ?case
  proof (cases "n < 10")
    case True
    then show ?thesis by (simp add: nat_digits.simps [of n] digit_char)
  next
    case False
    with 1 show ?thesis by (simp add: nat_digits.simps [of n] digit_char)
  qed
qed

lemma nat_digits_nonempty: "nat_digits n \<noteq> []"
  by (simp add: nat_digits.simps [of n])

lemma nat_digits_value: "digits_value (nat_digits n) = n"
proof (induction n rule: nat_digits.induct)
  case (1 n)
  show ?case
  proof (cases "n < 10")
    case True
    then show ?thesis by (simp add: nat_digits.simps [of n] digits_value_def digit_char)
  next
    case False
    with 1 show ?thesis by (simp add: nat_digits.simps [of n] digits_value_snoc digit_char)
  qed
qed

section \<open>What the patterns match\<close>

lemma search_first: "m s = Some r \<Longrightarrow> search m s = Some r"
  by (cases s) simp_all

lemma isdigit_not_special:
  "isdigit c \<Longrightarrow> c \<noteq> CHR ''['' \<and> c \<noteq> CHR '']'' \<and> c \<noteq> CHR ''-'' \<and> c \<noteq> CHR ''$''"
  by (auto simp: isdigit_def)

lemma isletter_not_special:
  "isletter c \<Longrightarrow> c \<noteq> CHR ''['' \<and> c \<noteq> CHR ''-'' \<and> c \<noteq> CHR ''$'' \<and> \<not> isdigit c"
  by (auto simp: isletter_def isupper_def islower_def isdigit_def)

lemma dollar_no_class: "\<not> isdigit CHR ''$''" "\<not> isletter CHR ''$''" "upper_char CHR ''$'' = CHR ''$''"
  by (simp_all add: isdigit_def isletter_def isupper_def islower_def upper_char_def)

lemma isdigit_upper_char: "isdigit c \<Longrightarrow> upper_char c = c"
  by (simp add: upper_char_def islower_def isdigit_def)

lemma isdigit_not_letter: "isdigit c \<Longrightarrow> \<not> isletter c"
  by (auto simp: isletter_def isupper_def islower_def isdigit_def)

lemma takeWhile_run:
  "list_all cls xs \<Longrightarrow> starts_outside cls rest \<Longrightarrow> takeWhile cls (xs @ rest) = xs"
  by (induction xs) (auto simp: starts_outside_def split: list.splits)

lemma dropWhile_run:
  "list_all cls xs \<Longrightarrow> starts_outside cls rest \<Longrightarrow> dropWhile cls (xs @ rest) = rest"
  by (induction xs) (auto simp: starts_outside_def split: list.splits)

lemma opt_char_if:
  "starts_outside (\<lambda>x. x = c) s \<Longrightarrow> opt c (char_if c b @ s) = (char_if c b, s)"
  by (cases s) (auto simp: char_if_def starts_outside_def)

lemma a1_token_run:
  assumes "xs \<noteq> []" "list_all cls xs" "starts_outside cls rest" "\<not> cls CHR ''$''"
  shows "a1_token cls (char_if CHR ''$'' b @ xs @ rest) = Some (char_if CHR ''$'' b, xs, rest)"
proof -
  obtain x xs' where xs: "xs = x # xs'" using assms(1) by (cases xs) auto
  have "x \<noteq> CHR ''$''" using assms(2,4) xs by auto
  then have "opt CHR ''$'' (char_if CHR ''$'' b @ xs @ rest) = (char_if CHR ''$'' b, xs @ rest)"
    by (intro opt_char_if) (simp add: xs starts_outside_def)
  then show ?thesis
    using assms(1) by (simp add: a1_token_def takeWhile_run [OF assms(2,3)] dropWhile_run [OF assms(2,3)])
qed

text \<open>The R1C1 token needs a digit after its letter, bracket and sign.\<close>

lemma rc_token_no_digit:
  assumes "starts_outside isdigit s" "starts_outside (\<lambda>x. x = CHR ''['') s" "starts_outside (\<lambda>x. x = CHR ''-'') s"
  shows "rc_token L (x # s) = None"
  using assms by (cases s) (auto simp: rc_token_def starts_outside_def)

lemma rc_token_wrong_letter: "upper_char x \<noteq> L \<Longrightarrow> rc_token L (x # s) = None"
  by (simp add: rc_token_def)

lemma rc_token_Nil: "rc_token L [] = None"
  by (simp add: rc_token_def)

lemma upper_char_RC:
  "upper_char CHR ''R'' = CHR ''R''" "upper_char CHR ''r'' = CHR ''R''"
  "upper_char CHR ''C'' = CHR ''C''" "upper_char CHR ''c'' = CHR ''C''"
  by code_simp+

lemma char_if_nonempty: "(char_if c b \<noteq> []) = b"
  by (simp add: char_if_def)

lemma rc_token_exact:
  assumes "ds \<noteq> []" "list_all isdigit ds" "upper_char x = L"
  shows "rc_token L (x # char_if CHR ''['' ob @ char_if CHR ''-'' neg @ ds @ char_if CHR '']'' cb)
       = Some (char_if CHR ''['' ob, char_if CHR ''-'' neg @ ds, char_if CHR '']'' cb, [])"
proof -
  obtain d ds' where ds: "ds = d # ds'" using assms(1) by (cases ds) auto
  have d: "isdigit d" using assms(2) ds by simp
  have o1: "opt CHR ''['' (char_if CHR ''['' ob @ char_if CHR ''-'' neg @ ds @ char_if CHR '']'' cb)
         = (char_if CHR ''['' ob, char_if CHR ''-'' neg @ ds @ char_if CHR '']'' cb)"
    using isdigit_not_special [OF d]
    by (intro opt_char_if) (simp add: ds char_if_def starts_outside_def)
  have o2: "opt CHR ''-'' (char_if CHR ''-'' neg @ ds @ char_if CHR '']'' cb)
         = (char_if CHR ''-'' neg, ds @ char_if CHR '']'' cb)"
    using isdigit_not_special [OF d]
    by (intro opt_char_if) (simp add: ds starts_outside_def)
  have o3: "opt CHR '']'' (char_if CHR '']'' cb) = (char_if CHR '']'' cb, [])"
    using opt_char_if [where s = "[]" and c = "CHR '']''" and b = cb]
    by (simp add: starts_outside_def)
  have out: "starts_outside isdigit (char_if CHR '']'' cb)"
    by (simp add: starts_outside_def char_if_def isdigit_def)
  show ?thesis
    using assms(1,3)
    by (simp add: rc_token_def o1 o2 o3 takeWhile_run [OF assms(2) out]
          dropWhile_run [OF assms(2) out])
qed

lemma py_int_signed:
  assumes "ds \<noteq> []" "list_all isdigit ds"
  shows "py_int (char_if CHR ''-'' neg @ ds)
       = (if neg then - int (digits_value ds) else int (digits_value ds))"
proof -
  obtain d ds' where ds: "ds = d # ds'" using assms(1) by (cases ds) auto
  have d: "isdigit d" using assms(2) ds by simp
  show ?thesis using isdigit_not_special [OF d] by (simp add: py_int_def char_if_def ds)
qed

lemma parse_row_text:
  assumes "ds \<noteq> []" "list_all isdigit ds"
  shows "parsecoordregex (char_if CHR ''$'' b @ ds) Row
       = Inr (Index (Some Row) (Some (int (digits_value ds))) b)"
proof -
  obtain d ds' where ds: "ds = d # ds'" using assms(1) by (cases ds) auto
  have d: "isdigit d" using assms(2) ds by simp
  have "\<exists>x s. char_if CHR ''$'' b @ ds = x # s \<and> upper_char x \<noteq> CHR ''R''"
    using isdigit_upper_char [OF d] d
    by (cases b) (auto simp: char_if_def ds dollar_no_class isdigit_def)
  then have rc: "rc_token CHR ''R'' (char_if CHR ''$'' b @ ds) = None"
    by (auto simp: rc_token_wrong_letter)
  have a1: "a1_token isdigit (char_if CHR ''$'' b @ ds) = Some (char_if CHR ''$'' b, ds, [])"
    using a1_token_run [OF assms, of "[]" b] by (simp add: starts_outside_def dollar_no_class)
  have "search ROWRE_match (char_if CHR ''$'' b @ ds) = Some (A1Match (char_if CHR ''$'' b) ds)"
    by (rule search_first) (simp add: ROWRE_match_def rc a1)
  then show ?thesis
    using py_int_signed [OF assms, of False]
    by (simp add: parsecoordregex_def char_if_nonempty) (simp add: char_if_def)
qed

lemma parse_column_text:
  assumes "ls \<noteq> []" "list_all isletter ls"
  shows "parsecoordregex (char_if CHR ''$'' b @ ls) Column
       = Inr (Index (Some Column) (Some (int (letters_value ls))) b)"
proof -
  obtain l ls' where ls: "ls = l # ls'" using assms(1) by (cases ls) auto
  have rc: "rc_token CHR ''C'' (char_if CHR ''$'' b @ ls) = None"
  proof (cases b)
    case True
    then show ?thesis by (simp add: char_if_def rc_token_wrong_letter dollar_no_class)
  next
    case False
    have "rc_token CHR ''C'' (l # ls') = None"
    proof (cases ls')
      case Nil
      then show ?thesis by (simp add: rc_token_def)
    next
      case (Cons l2 ls'')
      then have "isletter l2" using assms(2) ls by simp
      from isletter_not_special [OF this] Cons show ?thesis
        by (intro rc_token_no_digit) (simp_all add: starts_outside_def)
    qed
    with False show ?thesis by (simp add: char_if_def ls)
  qed
  have a1: "a1_token isletter (char_if CHR ''$'' b @ ls) = Some (char_if CHR ''$'' b, ls, [])"
    using a1_token_run [OF assms, of "[]" b] by (simp add: starts_outside_def dollar_no_class)
  have "search COLUMNRE_match (char_if CHR ''$'' b @ ls) = Some (A1Match (char_if CHR ''$'' b) ls)"
    by (rule search_first) (simp add: COLUMNRE_match_def rc a1)
  then show ?thesis
    using assms by (simp add: parsecoordregex_def char_if_nonempty column_index_from_string_def)
qed

lemma FULLRE_RC_A1_text:
  assumes "ls \<noteq> []" "list_all isletter ls" "ds \<noteq> []" "list_all isdigit ds"
  shows "FULLRE_RC (char_if CHR ''$'' b1 @ ls @ char_if CHR ''$'' b2 @ ds) = None"
proof (cases b1)
  case True
  then show ?thesis
    by (simp add: FULLRE_RC_def char_if_def rc_token_wrong_letter dollar_no_class)
next
  case False
  obtain l ls' where ls: "ls = l # ls'" using assms(1) by (cases ls) auto
  obtain d ds' where ds: "ds = d # ds'" using assms(3) by (cases ds) auto
  have d: "isdigit d" using assms(4) ds by simp
  show ?thesis
  proof (cases "ls' = [] \<and> \<not> b2")
    case True
    have "rc_token CHR ''R'' (l # ds) = None \<or> rc_token CHR ''R'' (l # ds) = Some ([], ds, [], [])"
      using rc_token_exact [OF assms(3,4), of l "upper_char l" False False False]
            rc_token_wrong_letter [of l "CHR ''R''" ds]
      by (cases "upper_char l = CHR ''R''") (simp_all add: char_if_def)
    then show ?thesis
      using True False by (auto simp: FULLRE_RC_def ls char_if_def rc_token_Nil)
  next
    case other: False
    have "rc_token CHR ''R'' (l # ls' @ char_if CHR ''$'' b2 @ ds) = None"
    proof (cases ls')
      case Nil
      with other have b2 by simp
      with Nil show ?thesis
        by (intro rc_token_no_digit) (simp_all add: starts_outside_def char_if_def dollar_no_class)
    next
      case (Cons l2 ls'')
      then have "isletter l2" using assms(2) ls by simp
      from isletter_not_special [OF this] Cons show ?thesis
        by (intro rc_token_no_digit) (simp_all add: starts_outside_def)
    qed
    with False show ?thesis by (simp add: FULLRE_RC_def ls char_if_def)
  qed
qed

lemma FULLRE_search_A1_text:
  assumes "ls \<noteq> []" "list_all isletter ls" "ds \<noteq> []" "list_all isdigit ds"
  shows "FULLRE_search (char_if CHR ''$'' b1 @ ls @ char_if CHR ''$'' b2 @ ds)
       = Some (FullA1 (char_if CHR ''$'' b1 @ ls) (char_if CHR ''$'' b2 @ ds))"
proof -
  obtain d ds' where ds: "ds = d # ds'" using assms(3) by (cases ds) auto
  have d: "isdigit d" using assms(4) ds by simp
  have out: "starts_outside isletter (char_if CHR ''$'' b2 @ ds)"
    using isdigit_not_letter [OF d] by (simp add: starts_outside_def char_if_def ds dollar_no_class)
  have t1: "a1_token isletter (char_if CHR ''$'' b1 @ ls @ char_if CHR ''$'' b2 @ ds)
      = Some (char_if CHR ''$'' b1, ls, char_if CHR ''$'' b2 @ ds)"
    by (rule a1_token_run [OF assms(1,2) out]) (simp add: dollar_no_class)
  have t2: "a1_token isdigit (char_if CHR ''$'' b2 @ ds) = Some (char_if CHR ''$'' b2, ds, [])"
    using a1_token_run [OF assms(3,4), of "[]" b2] by (simp add: starts_outside_def dollar_no_class)
  show ?thesis
    by (simp add: FULLRE_search_def FULLRE_RC_A1_text [OF assms] FULLRE_A1_def t1 t2 at_end_def)
qed

lemma converttotuple_A1_text:
  assumes "ls \<noteq> []" "list_all isletter ls" "ds \<noteq> []" "list_all isdigit ds"
  shows "converttotuple (PStr (char_if CHR ''$'' b1 @ ls @ char_if CHR ''$'' b2 @ ds))
       = Inr (Index (Some Row) (Some (int (digits_value ds))) b2,
              Index (Some Column) (Some (int (letters_value ls))) b1)"
  by (simp add: converttotuple_def FULLRE_search_A1_text [OF assms]
        parse_row_text [OF assms(3,4)] parse_column_text [OF assms(1,2)])

section \<open>Index normalization\<close>

text \<open>
  C7. For every integer descriptor \<open>n\<close>, whatever its sign, parseindex returns the
  Index with no axis (Unknown), the value \<open>n\<close> and the absolute flag set.
\<close>

theorem parseindex_int_absolute_unknown:
  "parseindex (PInt n) = Inr (Index None (Some n) True)"
  by simp

text \<open>
  C9. A Boolean descriptor is not taken as an integer: parseindex passes every
  recognized shape and raises the error of an unrecognized format, so no Boolean
  becomes an Index of value 1 or 0.
\<close>

theorem parseindex_bool_unsupported:
  "parseindex (PBool b) = Inl UnsupportedDescriptor"
  by simp

text \<open>No step of normalization or construction raises the error of the floor check.\<close>

lemma column_index_from_string_error:
  "column_index_from_string s = Inl e \<Longrightarrow> e = InvalidColumn"
  by (simp add: column_index_from_string_def split: if_splits)

lemma parsecoordregex_no_floor: "parsecoordregex s t \<noteq> Inl InvalidAbsoluteResult"
  by (cases t) (auto simp: parsecoordregex_def Let_def dest: column_index_from_string_error
        split: option.splits axis_match.splits sum.splits)

lemma parseindex_no_floor: "parseindex v \<noteq> Inl InvalidAbsoluteResult"
  by (induction v rule: parseindex.induct)
     (auto simp: parsecoordregex_no_floor index_type_of_def index_value_of_def
           truth_value_of_def absolute_part_def
           split: sum.splits pyval.splits if_splits)

lemma Coordinate_init_no_floor: "Coordinate_init r c \<noteq> Inl InvalidAbsoluteResult"
  by (auto simp: Coordinate_init_def converttotuple_def parsecoordregex_no_floor
           split: sum.splits pyval.splits option.splits full_match.splits)

lemmas disambiguation_defs =
  converttotuple_indices_def one_value_indices_def same_type_indices_def
  sort_indices_def first_of_def replace_type_def COORDINATEORDER_def

text \<open>
  C10. For every integer \<open>n \<le> 0\<close>, parseindex of the bare integer and the construction
  of a Coordinate from it (alone, or with a second integer) succeed and give an absolute
  Index of value \<open>n\<close>. Neither parseindex nor the constructor ever raises the error of
  the floor check; addindices raises it for an absolute sum that is not positive.
\<close>

theorem nonpositive_integer_is_accepted:
  "n \<le> 0 \<Longrightarrow>
     parseindex (PInt n) = Inr (Index None (Some n) True)
   \<and> Coordinate_init (PInt n) (PBool False)
       = Inr (Coordinate (Index None (Some n) True) (Index None None False))
   \<and> Coordinate_init (PInt n) (PInt m)
       = Inr (Coordinate (Index (Some Row) (Some n) True) (Index (Some Column) (Some m) True))
   \<and> (\<forall>v. parseindex v \<noteq> Inl InvalidAbsoluteResult)
   \<and> (\<forall>r c. Coordinate_init r c \<noteq> Inl InvalidAbsoluteResult)
   \<and> addindices (Index t (Some n) True) (Index t (Some 0) False) = Inl InvalidAbsoluteResult"
proof -
  assume "n \<le> 0"
  then have "addindices (Index t (Some n) True) (Index t (Some 0) False)
      = Inl InvalidAbsoluteResult"
    by (simp add: addindices_def)
  moreover have "Coordinate_init (PInt n) (PBool False)
      = Inr (Coordinate (Index None (Some n) True) (Index None None False))"
    by (simp add: Coordinate_init_def converttotuple_def disambiguation_defs)
  moreover have "Coordinate_init (PInt n) (PInt m)
      = Inr (Coordinate (Index (Some Row) (Some n) True) (Index (Some Column) (Some m) True))"
    by (simp add: Coordinate_init_def converttotuple_def disambiguation_defs)
  ultimately show ?thesis
    using parseindex_no_floor Coordinate_init_no_floor by simp
qed

theorem nonpositive_integer_is_accepted_witness:
  "(-3::int) \<le> 0
   \<and> parseindex (PInt (-3)) = Inr (Index None (Some (-3)) True)
   \<and> Coordinate_init (PInt (-3)) (PBool False)
       = Inr (Coordinate (Index None (Some (-3)) True) (Index None None False))
   \<and> Coordinate_init (PInt (-3)) (PInt 0)
       = Inr (Coordinate (Index (Some Row) (Some (-3)) True) (Index (Some Column) (Some 0) True))
   \<and> addindices (Index (Some Row) (Some (-3)) True) (Index (Some Row) (Some 0) False)
       = Inl InvalidAbsoluteResult"
  using nonpositive_integer_is_accepted [of "-3" 0 "Some Row"] by simp

section \<open>Disambiguation and construction\<close>

text \<open>
  C2. Two Row indices of which exactly one is absolute. With the absolute one first,
  the second is retyped Column and both values are kept. With the absolute one second,
  the result is the first index as the row and the first index again, retyped, as the
  column: the value of the absolute index is lost. The pair of the strings 1 and \$2 is
  such an input.
\<close>

theorem rows_with_second_absolute_lose_a_value:
  "converttotuple_indices (Index (Some Row) (Some a) True) (Index (Some Row) (Some b) False)
     = Inr (Index (Some Row) (Some a) True, Index (Some Column) (Some b) False)
   \<and> converttotuple_indices (Index (Some Row) (Some a) False) (Index (Some Row) (Some b) True)
     = Inr (Index (Some Row) (Some a) False, Index (Some Column) (Some a) False)
   \<and> converttotuple (PSeq [PStr ''1'', PStr ''$2''])
     = Inr (Index (Some Row) (Some 1) False, Index (Some Column) (Some 1) False)"
proof (intro conjI)
  show "converttotuple_indices (Index (Some Row) (Some a) True) (Index (Some Row) (Some b) False)
     = Inr (Index (Some Row) (Some a) True, Index (Some Column) (Some b) False)"
    by (simp add: disambiguation_defs)
  show "converttotuple_indices (Index (Some Row) (Some a) False) (Index (Some Row) (Some b) True)
     = Inr (Index (Some Row) (Some a) False, Index (Some Column) (Some a) False)"
    by (simp add: disambiguation_defs)
  show "converttotuple (PSeq [PStr ''1'', PStr ''$2''])
     = Inr (Index (Some Row) (Some 1) False, Index (Some Column) (Some 1) False)"
    by code_simp
qed

text \<open>
  C3. A Coordinate built from one integer and None holds the parsed indices as they
  were: the index of the integer keeps the type None (Unknown), and the other side is
  the Index without type and without value.
\<close>

theorem single_axis_index_stays_untyped:
  "Coordinate_init PNone (PInt n)
     = Inr (Coordinate (Index None None False) (Index None (Some n) True))
   \<and> Coordinate_init (PInt n) PNone
     = Inr (Coordinate (Index None (Some n) True) (Index None None False))"
  by (simp add: Coordinate_init_def converttotuple_def disambiguation_defs)

text \<open>
  C8. The pairs (None, 5) and (5, None) are parsed, and the value 5 stands on the side
  of its position: it is the column of the first Coordinate and the row of the second,
  and the other side has no value. The axis is not assigned by the position, though:
  the Index that holds 5 keeps the type None, neither Row nor Column, in the constructor
  and in converttotuple alike.
\<close>

theorem single_axis_value_keeps_no_axis:
  "(\<exists>c. Coordinate_init PNone (PInt 5) = Inr c \<and> row c = None \<and> column c = Some 5
         \<and> itype (column_index c) = None \<and> itype (column_index c) \<noteq> Some Column)
   \<and> (\<exists>c. Coordinate_init (PInt 5) PNone = Inr c \<and> row c = Some 5 \<and> column c = None
         \<and> itype (row_index c) = None \<and> itype (row_index c) \<noteq> Some Row)
   \<and> converttotuple (PSeq [PNone, PInt 5])
       = Inr (Index None None False, Index None (Some 5) True)
   \<and> converttotuple (PSeq [PInt 5, PNone])
       = Inr (Index None (Some 5) True, Index None None False)"
  by (simp add: Coordinate_init_def converttotuple_def disambiguation_defs row_def column_def)

section \<open>Brackets of the relative-offset notation\<close>

text \<open>
  C6. A relative-offset axis token is the letter R or C, in either case, an optional
  opening bracket, an optional minus sign, digits, and an optional closing bracket.
  parsecoordregex gives it the absolute flag exactly when both brackets are there, and
  raises the bracket error naming the missing bracket when exactly one is there: the
  closing one after an opening bracket alone, the opening one before a closing bracket
  alone. So R[1]C[-2] gives absolute indices, R1C1 relative ones, and R[1C1 raises the
  error of the missing closing bracket.
\<close>

theorem relative_offset_brackets:
  assumes "ds \<noteq> []" and "list_all isdigit ds"
    and "(colrow = Row \<and> (x = CHR ''R'' \<or> x = CHR ''r''))
         \<or> (colrow = Column \<and> (x = CHR ''C'' \<or> x = CHR ''c''))"
  shows "parsecoordregex (x # char_if CHR ''['' ob @ char_if CHR ''-'' neg @ ds @ char_if CHR '']'' cb) colrow
       = (if ob = cb
          then Inr (Index (Some colrow)
                     (Some (if neg then - int (digits_value ds) else int (digits_value ds)))
                     (ob \<and> cb))
          else Inl (MalformedBracket (if ob then CHR '']'' else CHR ''['')))
     \<and> converttotuple (PStr ''R[1]C[-2]'')
       = Inr (Index (Some Row) (Some 1) True, Index (Some Column) (Some (-2)) True)
     \<and> converttotuple (PStr ''R1C1'')
       = Inr (Index (Some Row) (Some 1) False, Index (Some Column) (Some 1) False)
     \<and> converttotuple (PStr ''R[1C1'') = Inl (MalformedBracket CHR '']'')"
proof (intro conjI)
  let ?s = "x # char_if CHR ''['' ob @ char_if CHR ''-'' neg @ ds @ char_if CHR '']'' cb"
  have m: "(if colrow = Column then search COLUMNRE_match ?s else search ROWRE_match ?s)
     = Some (RCMatch (char_if CHR ''['' ob) (char_if CHR ''-'' neg @ ds) (char_if CHR '']'' cb))"
  proof (cases colrow)
    case Row
    then have "upper_char x = CHR ''R''" using assms(3) by (auto simp: upper_char_RC)
    from rc_token_exact [OF assms(1,2) this] Row show ?thesis by (simp add: ROWRE_match_def)
  next
    case Column
    then have "upper_char x = CHR ''C''" using assms(3) by (auto simp: upper_char_RC)
    from rc_token_exact [OF assms(1,2) this] Column show ?thesis by (simp add: COLUMNRE_match_def)
  qed
  show "parsecoordregex ?s colrow
       = (if ob = cb
          then Inr (Index (Some colrow)
                     (Some (if neg then - int (digits_value ds) else int (digits_value ds)))
                     (ob \<and> cb))
          else Inl (MalformedBracket (if ob then CHR '']'' else CHR ''['')))"
    unfolding parsecoordregex_def m
    by (simp add: py_int_signed [OF assms(1,2)] Let_def) (auto simp: char_if_def)
  show "converttotuple (PStr ''R[1]C[-2]'')
       = Inr (Index (Some Row) (Some 1) True, Index (Some Column) (Some (-2)) True)"
    by code_simp
  show "converttotuple (PStr ''R1C1'')
       = Inr (Index (Some Row) (Some 1) False, Index (Some Column) (Some 1) False)"
    by code_simp
  show "converttotuple (PStr ''R[1C1'') = Inl (MalformedBracket CHR '']'')"
    by code_simp
qed

theorem relative_offset_brackets_witness:
  "parsecoordregex ''R[12'' Row = Inl (MalformedBracket CHR '']'')
   \<and> parsecoordregex ''r12]'' Row = Inl (MalformedBracket CHR ''['')
   \<and> parsecoordregex ''c[-12]'' Column = Inr (Index (Some Column) (Some (-12)) True)
   \<and> parsecoordregex ''C12'' Column = Inr (Index (Some Column) (Some 12) False)"
  using relative_offset_brackets [of "''12''" Row "CHR ''R''" True False False]
        relative_offset_brackets [of "''12''" Row "CHR ''r''" False False True]
        relative_offset_brackets [of "''12''" Column "CHR ''c''" True True True]
        relative_offset_brackets [of "''12''" Column "CHR ''C''" False False False]
  by (simp add: char_if_def isdigit_def digits_value_def)
section \<open>Rendering and parsing\<close>

lemma toA1string_text:
  assumes "1 \<le> k"
  shows "toA1string (Coordinate (Index tr (Some r) ra) (Index tc (Some k) ka)) honor
       = Inr (char_if CHR ''$'' (honor \<and> ra) @ column_letters (nat k)
              @ char_if CHR ''$'' (honor \<and> ka) @ py_str_int r)"
  using assms by (simp add: toA1string_def get_column_letter_def format_value_def char_if_def)

lemma list_all_upper_letter: "list_all isupper xs \<Longrightarrow> list_all isletter xs"
  by (induction xs) (simp_all add: isletter_def)

text \<open>
  What the constructor reads in the text that toA1string writes: the flag written
  before the letters comes back on the column and the flag written
  before the number on the row.
\<close>

lemma parse_rendered_general:
  assumes "0 \<le> r" "1 \<le> k"
  shows "parse_rendered (Coordinate (Index tr (Some r) ra) (Index tc (Some k) ka)) honor
       = Inr (Coordinate (Index (Some Row) (Some r) (honor \<and> ka))
                         (Index (Some Column) (Some k) (honor \<and> ra)))"
proof -
  have ls: "column_letters (nat k) \<noteq> []" "list_all isletter (column_letters (nat k))"
    using assms(2) by (simp_all add: column_letters_nonempty list_all_upper_letter column_letters_upper)
  have ds: "nat_digits (nat r) \<noteq> []" "list_all isdigit (nat_digits (nat r))"
    by (simp_all add: nat_digits_nonempty nat_digits_digits)
  have str: "py_str_int r = nat_digits (nat r)"
    using assms(1) by (simp add: py_str_int_def)
  show ?thesis
    using assms
    by (simp add: parse_rendered_def toA1string_text str Coordinate_init_def
          converttotuple_A1_text [OF ls ds] column_letters_value nat_digits_value)
qed

text \<open>
  C1, as the code has it. For a Coordinate of a row and a column whose row value is at
  least 0 and whose column value lies in [1, 16384]: the text rendered without dollar
  signs parses back to the same values with both flags relative, and the text rendered
  with the flags parses back to the same Coordinate when its two flags are equal.
\<close>

theorem rendered_text_parses_back:
  assumes "0 \<le> r" and "1 \<le> k" and "k \<le> 16384"
  shows "parse_rendered (Coordinate (Index (Some Row) (Some r) ra) (Index (Some Column) (Some k) ka)) False
           = Inr (Coordinate (Index (Some Row) (Some r) False) (Index (Some Column) (Some k) False))
       \<and> parse_rendered (Coordinate (Index (Some Row) (Some r) a) (Index (Some Column) (Some k) a)) True
           = Inr (Coordinate (Index (Some Row) (Some r) a) (Index (Some Column) (Some k) a))"
  using assms by (simp add: parse_rendered_general)

theorem rendered_text_parses_back_witness:
  "parse_rendered (Coordinate (Index (Some Row) (Some 12) True) (Index (Some Column) (Some 703) False)) False
           = Inr (Coordinate (Index (Some Row) (Some 12) False) (Index (Some Column) (Some 703) False))
       \<and> parse_rendered (Coordinate (Index (Some Row) (Some 12) True) (Index (Some Column) (Some 703) True)) True
           = Inr (Coordinate (Index (Some Row) (Some 12) True) (Index (Some Column) (Some 703) True))"
  using rendered_text_parses_back [of 12 703 True False True] by simp

text \<open>
  C1 as stated fails: toA1string writes the row's flag before the letters and the
  column's flag before the number, so a Coordinate with an absolute row and a relative
  column comes back with the flags exchanged; a negative row renders to a text that is
  no coordinate; and a column below 1 has no letters.
\<close>

theorem rendered_text_parses_differently:
  "parse_rendered (Coordinate (Index (Some Row) (Some 1) True) (Index (Some Column) (Some 1) False)) True
     = Inr (Coordinate (Index (Some Row) (Some 1) False) (Index (Some Column) (Some 1) True))
   \<and> toA1string (Coordinate (Index (Some Row) (Some (-1)) False) (Index (Some Column) (Some 1) False)) True
     = Inr ''A-1''
   \<and> parse_rendered (Coordinate (Index (Some Row) (Some (-1)) False) (Index (Some Column) (Some 1) False)) True
     = Inl InvalidCoordinates
   \<and> parse_rendered (Coordinate (Index (Some Row) (Some (-1)) False) (Index (Some Column) (Some 1) False)) False
     = Inl InvalidCoordinates
   \<and> parse_rendered (Coordinate (Index (Some Row) (Some 1) False) (Index (Some Column) (Some 0) False)) True
     = Inl InvalidColumn"
  by code_simp

section \<open>Properties of addition\<close>

text \<open>
  C5, as the code has it, for every two Index values. The check for two absolute
  indices comes first, whatever the axes and the values; then the check for differing
  axes, whatever the values. For two indices of one axis that are not both absolute and
  both carry a value, the sum is absolute exactly when one of them is, an absolute sum
  of 0 or less raises the error of the floor check, and every other sum is returned.
  Only then does a missing value matter: the sum itself fails.
\<close>

theorem addindices_cases:
  "addindices index1 index2 =
     (if absolute index1 \<and> absolute index2 then Inl DoubleAbsolute
      else if itype index1 \<noteq> itype index2 then Inl AxisMismatch
      else (case (ivalue index1, ivalue index2) of
              (Some v1, Some v2) \<Rightarrow>
                if (absolute index1 \<or> absolute index2) \<and> v1 + v2 \<le> 0
                then Inl InvalidAbsoluteResult
                else Inr (Index (itype index1) (Some (v1 + v2))
                           (absolute index1 \<or> absolute index2))
            | _ \<Rightarrow> Inl PyTypeError))"
  by (cases index1; cases index2)
     (auto simp: addindices_def add.commute split: option.splits)

theorem addindices_cases_witness:
  "addindices (Index (Some Row) (Some 1) True) (Index (Some Row) (Some (-2)) False)
     = Inl InvalidAbsoluteResult
   \<and> addindices (Index (Some Row) (Some (-2)) False) (Index (Some Row) (Some 5) True)
     = Inr (Index (Some Row) (Some 3) True)
   \<and> addindices (Index (Some Row) (Some (-2)) False) (Index (Some Row) (Some 1) False)
     = Inr (Index (Some Row) (Some (-1)) False)
   \<and> addindices (Index (Some Row) None True) (Index (Some Column) (Some 1) True)
     = Inl DoubleAbsolute
   \<and> addindices (Index (Some Row) None False) (Index (Some Column) (Some 1) True)
     = Inl AxisMismatch"
  using addindices_cases [of "Index (Some Row) (Some 1) True" "Index (Some Row) (Some (-2)) False"]
        addindices_cases [of "Index (Some Row) (Some (-2)) False" "Index (Some Row) (Some 5) True"]
        addindices_cases [of "Index (Some Row) (Some (-2)) False" "Index (Some Row) (Some 1) False"]
        addindices_cases [of "Index (Some Row) None True" "Index (Some Column) (Some 1) True"]
        addindices_cases [of "Index (Some Row) None False" "Index (Some Column) (Some 1) True"]
  by simp

text \<open>
  C5 as stated fails on two absolute indices of differing axes, where the error is the
  one of two absolute indices and not the one of differing axes, and on an index without
  a value, where the sum itself fails.
\<close>

theorem addindices_absolute_check_first:
  "itype (Index (Some Row) (Some 1) True) \<noteq> itype (Index (Some Column) (Some 1) True)
   \<and> addindices (Index (Some Row) (Some 1) True) (Index (Some Column) (Some 1) True)
       \<noteq> Inl AxisMismatch
   \<and> addindices (Index (Some Row) (Some 1) True) (Index (Some Column) (Some 1) True)
       = Inl DoubleAbsolute
   \<and> addindices (Index (Some Row) None False) (Index (Some Row) (Some 1) False)
       = Inl PyTypeError"
  by (simp add: addindices_def)

text \<open>
  C4, as the code has it. The addition of a descriptor builds a Coordinate from it and
  adds that; it never raises: when the construction fails, and when the addition of the
  constructed Coordinate fails, the result is None.
\<close>

theorem add_descriptor_swallows_errors:
  "Coordinate_add self (AValue v) =
     (case Coordinate_init v (PBool False) of
        Inl e \<Rightarrow> Inr None
      | Inr c \<Rightarrow> (case Coordinate_add self (ACoordinate c) of
            Inl e \<Rightarrow> Inr None
          | Inr r \<Rightarrow> Inr r))
   \<and> (\<forall>e. Coordinate_add self (AValue v) \<noteq> Inl e)"
  by (simp add: Coordinate_add_def split: sum.splits)

theorem add_descriptor_swallows_errors_witness:
  "Coordinate_add (Coordinate (Index (Some Row) (Some 1) True) (Index (Some Column) (Some 1) False))
     (AValue (PStr ''A1''))
   = Inr (Some (Coordinate (Index (Some Row) (Some 2) True) (Index (Some Column) (Some 2) False)))"
proof -
  have init: "Coordinate_init (PStr ''A1'') (PBool False)
      = Inr (Coordinate (Index (Some Row) (Some 1) False) (Index (Some Column) (Some 1) False))"
    by code_simp
  have add: "Coordinate_add
       (Coordinate (Index (Some Row) (Some 1) True) (Index (Some Column) (Some 1) False))
       (ACoordinate (Coordinate (Index (Some Row) (Some 1) False) (Index (Some Column) (Some 1) False)))
      = Inr (Some (Coordinate (Index (Some Row) (Some 2) True) (Index (Some Column) (Some 2) False)))"
    by code_simp
  show ?thesis
    using add_descriptor_swallows_errors
      [of "Coordinate (Index (Some Row) (Some 1) True) (Index (Some Column) (Some 1) False)"
          "PStr ''A1''"]
    by (simp add: init add)
qed

text \<open>
  C4 as stated fails on a string that is no coordinate: the constructor raises, and the
  addition returns None, which is neither an error nor a Coordinate.
\<close>

theorem add_invalid_descriptor_returns_None:
  "Coordinate_init (PStr ''garbage'') (PBool False) = Inl InvalidCoordinates
   \<and> Coordinate_add
       (Coordinate (Index (Some Row) (Some 1) False) (Index (Some Column) (Some 1) False))
       (AValue (PStr ''garbage'')) = Inr None"
  by code_simp

end
